theory Spec2Isabelle
  imports Complex_Main "HOL-Library.Sublist"
begin

section \<open>JavaScript values used by the scoring helpers\<close>

text \<open>
  The helper functions of \<^verbatim>\<open>backend/routes/scores.js\<close> are embedded as HOL functions.
  Integer-valued JavaScript numbers are \<^typ>\<open>int\<close>. A field that may be absent holds
  \<^verbatim>\<open>undefined\<close> (the property is missing), \<^verbatim>\<open>null\<close> (the value a database row or a
  JSON body carries for "no value") or a number.
\<close>

datatype jsval = Undefined | Null | Number int

text \<open>
  \<^verbatim>\<open>v <= k\<close> for a numeric literal \<^verbatim>\<open>k\<close>: the left operand goes through ToNumber, which
  maps \<^verbatim>\<open>undefined\<close> to NaN (every comparison with NaN is false) and \<^verbatim>\<open>null\<close> to +0.
\<close>

fun js_le :: "jsval \<Rightarrow> int \<Rightarrow> bool" where
  "js_le Undefined k = False"
| "js_le Null k = (0 \<le> k)"
| "js_le (Number n) k = (n \<le> k)"

text \<open>\<^verbatim>\<open>v === k\<close>: strict equality, no conversion.\<close>

fun js_strict_eq :: "jsval \<Rightarrow> int \<Rightarrow> bool" where
  "js_strict_eq (Number n) k = (n = k)"
| "js_strict_eq _ k = False"

text \<open>ToBoolean: \<^verbatim>\<open>undefined\<close>, \<^verbatim>\<open>null\<close> and 0 are falsy.\<close>

fun truthy :: "jsval \<Rightarrow> bool" where
  "truthy Undefined = False"
| "truthy Null = False"
| "truthy (Number n) = (n \<noteq> 0)"

text \<open>
  Strings that hold characters outside ASCII (the emoji of titles, icons and messages) are
  lists of Unicode code points; \<open>asc\<close> embeds an ASCII literal.
\<close>

type_synonym ustring = "nat list"

definition asc :: "string \<Rightarrow> ustring" where
  "asc s = map (\<lambda>c. of_char c) s"

section \<open>Achievements\<close>

record 't userStats =
  total_games :: int
  best_score :: int
  best_time :: jsval
  rank :: jsval
  last_played :: 't

record 't achievement =
  ach_id :: string
  title :: ustring
  description :: string
  icon :: ustring
  rarity :: string
  unlockedAt :: 't

definition ten_games :: "'t \<Rightarrow> 't achievement" where
  "ten_games t = \<lparr>ach_id = ''ten_games'', title = asc ''Getting Warmed Up! '' @ [0x1F525],
     description = ''Played 10 games'', icon = [0x1F3AF], rarity = ''common'',
     unlockedAt = t\<rparr>"

definition fifty_games :: "'t \<Rightarrow> 't achievement" where
  "fifty_games t = \<lparr>ach_id = ''fifty_games'', title = asc ''Memory Enthusiast! '' @ [0x1F913],
     description = ''Played 50 games'', icon = [0x1F3C5], rarity = ''uncommon'',
     unlockedAt = t\<rparr>"

definition hundred_games :: "'t \<Rightarrow> 't achievement" where
  "hundred_games t = \<lparr>ach_id = ''hundred_games'', title = asc ''Memory Addict! '' @ [0x1F9E0],
     description = ''Played 100 games'', icon = [0x1F3C6], rarity = ''rare'',
     unlockedAt = t\<rparr>"

definition score_100 :: "'t \<Rightarrow> 't achievement" where
  "score_100 t = \<lparr>ach_id = ''score_100'', title = asc ''Century Club! '' @ [0x1F4AF],
     description = ''Scored 100 points in a single game'', icon = [0x1F4AF],
     rarity = ''common'', unlockedAt = t\<rparr>"

definition score_200 :: "'t \<Rightarrow> 't achievement" where
  "score_200 t = \<lparr>ach_id = ''score_200'', title = asc ''Double Century! '' @ [0x1F38A],
     description = ''Scored 200 points in a single game'', icon = [0x1F31F],
     rarity = ''uncommon'', unlockedAt = t\<rparr>"

definition score_300 :: "'t \<Rightarrow> 't achievement" where
  "score_300 t = \<lparr>ach_id = ''score_300'', title = asc ''Memory Master! '' @ [0x1F451],
     description = ''Scored 300 points in a single game'', icon = [0x1F451],
     rarity = ''legendary'', unlockedAt = t\<rparr>"

definition speed_demon :: "'t \<Rightarrow> 't achievement" where
  "speed_demon t = \<lparr>ach_id = ''speed_demon'', title = asc ''Speed Demon! '' @ [0x26A1],
     description = ''Completed a game in under 1 minute'', icon = [0x26A1],
     rarity = ''rare'', unlockedAt = t\<rparr>"

definition lightning_fast :: "'t \<Rightarrow> 't achievement" where
  "lightning_fast t = \<lparr>ach_id = ''lightning_fast'',
     title = asc ''Lightning Fast! '' @ [0x1F329, 0xFE0F],
     description = ''Completed a game in under 30 seconds'', icon = [0x1F329, 0xFE0F],
     rarity = ''legendary'', unlockedAt = t\<rparr>"

definition top_ten :: "'t \<Rightarrow> 't achievement" where
  "top_ten t = \<lparr>ach_id = ''top_ten'', title = asc ''Top 10 Player! '' @ [0x1F3C6],
     description = ''Reached the top 10 on the leaderboard'', icon = [0x1F3C6],
     rarity = ''epic'', unlockedAt = t\<rparr>"

definition podium :: "'t \<Rightarrow> 't achievement" where
  "podium t = \<lparr>ach_id = ''podium'', title = asc ''Podium Finisher! '' @ [0x1F947],
     description = ''Reached the top 3 on the leaderboard'', icon = [0x1F947],
     rarity = ''legendary'', unlockedAt = t\<rparr>"

definition champion :: "'t \<Rightarrow> 't achievement" where
  "champion t = \<lparr>ach_id = ''champion'', title = asc ''Champion! '' @ [0x1F451],
     description = ''Reached #1 on the leaderboard'', icon = [0x1F451],
     rarity = ''legendary'', unlockedAt = t\<rparr>"

text \<open>\<^verbatim>\<open>if (c) { achievements.push(a); }\<close> on the array built so far.\<close>

definition push_if :: "bool \<Rightarrow> 'a \<Rightarrow> 'a list \<Rightarrow> 'a list" where
  "push_if c a achievements = (if c then achievements @ [a] else achievements)"

text \<open>
  \<open>getUserAchievements\<close>: eleven guarded pushes in source order. No statement of the
  \<^verbatim>\<open>try\<close> block can throw on a statistics object, so the \<^verbatim>\<open>catch\<close> branch (which returns
  the same array) is never entered. The \<^verbatim>\<open>username\<close> parameter is not read. The
  function is \<^verbatim>\<open>async\<close>; the embedding gives the array its promise resolves to.
\<close>

definition getUserAchievements :: "string \<Rightarrow> 't userStats \<Rightarrow> 't achievement list" where
  "getUserAchievements username userStats =
    (let t = last_played userStats;
         achievements = [];
         achievements = push_if (total_games userStats \<ge> 10) (ten_games t) achievements;
         achievements = push_if (total_games userStats \<ge> 50) (fifty_games t) achievements;
         achievements = push_if (total_games userStats \<ge> 100) (hundred_games t) achievements;
         achievements = push_if (best_score userStats \<ge> 100) (score_100 t) achievements;
         achievements = push_if (best_score userStats \<ge> 200) (score_200 t) achievements;
         achievements = push_if (best_score userStats \<ge> 300) (score_300 t) achievements;
         achievements = push_if (truthy (best_time userStats) \<and> js_le (best_time userStats) 60000)
                          (speed_demon t) achievements;
         achievements = push_if (truthy (best_time userStats) \<and> js_le (best_time userStats) 30000)
                          (lightning_fast t) achievements;
         achievements = push_if (js_le (rank userStats) 10) (top_ten t) achievements;
         achievements = push_if (js_le (rank userStats) 3) (podium t) achievements;
         achievements = push_if (js_strict_eq (rank userStats) 1) (champion t) achievements
     in achievements)"

text \<open>The ids of an evaluation, in output order.\<close>

definition achievement_ids :: "string \<Rightarrow> 't userStats \<Rightarrow> string list" where
  "achievement_ids username userStats = map ach_id (getUserAchievements username userStats)"

section \<open>Performance rating\<close>

text \<open>
  \<^verbatim>\<open>score >= v\<close> where \<^verbatim>\<open>v\<close> is the value of a property read: a read of a property the
  object does not have gives \<^verbatim>\<open>undefined\<close>, and the comparison is then false.
\<close>

fun js_ge :: "int \<Rightarrow> jsval \<Rightarrow> bool" where
  "js_ge score Undefined = False"
| "js_ge score Null = (score \<ge> 0)"
| "js_ge score (Number n) = (score \<ge> n)"

text \<open>
  What the code observes of the value of \<^verbatim>\<open>thresholds[difficulty]\<close>: its three property
  reads. (Every object and function is truthy.)
\<close>

record threshold =
  excellent :: jsval
  good :: jsval
  average :: jsval

text \<open>
  \<^verbatim>\<open>thresholds\<close> is an object literal, so \<^verbatim>\<open>thresholds[difficulty]\<close> is an ordinary property
  lookup: it finds the four own properties and, through the prototype chain, the members
  of \<^verbatim>\<open>Object.prototype\<close>. Those are functions (and, for \<^verbatim>\<open>__proto__\<close>, the prototype
  object itself); none has a property \<^verbatim>\<open>excellent\<close>, \<^verbatim>\<open>good\<close> or \<^verbatim>\<open>average\<close>.
  Any other key gives \<^verbatim>\<open>undefined\<close>.
\<close>

definition object_prototype_keys :: "string list" where
  "object_prototype_keys =
     [''constructor'', ''hasOwnProperty'', ''isPrototypeOf'', ''propertyIsEnumerable'',
      ''toLocaleString'', ''toString'', ''valueOf'', ''__proto__'',
      ''__defineGetter__'', ''__defineSetter__'', ''__lookupGetter__'', ''__lookupSetter__'']"

definition inherited_member :: threshold where
  "inherited_member = \<lparr>excellent = Undefined, good = Undefined, average = Undefined\<rparr>"

definition thresholds :: "string \<Rightarrow> threshold option" where
  "thresholds difficulty =
     (if difficulty = ''easy'' then
        Some \<lparr>excellent = Number 180, good = Number 140, average = Number 100\<rparr>
      else if difficulty = ''medium'' then
        Some \<lparr>excellent = Number 220, good = Number 180, average = Number 140\<rparr>
      else if difficulty = ''hard'' then
        Some \<lparr>excellent = Number 280, good = Number 220, average = Number 180\<rparr>
      else if difficulty = ''expert'' then
        Some \<lparr>excellent = Number 350, good = Number 280, average = Number 220\<rparr>
      else if difficulty \<in> set object_prototype_keys then Some inherited_member
      else None)"

record performance =
  rating :: string
  emoji :: ustring
  color :: string

definition getGamePerformance :: "int \<Rightarrow> string \<Rightarrow> performance" where
  "getGamePerformance score difficulty =
    (let threshold = (case thresholds difficulty of
                        Some v \<Rightarrow> v
                      | None \<Rightarrow> the (thresholds ''easy''))
     in if js_ge score (excellent threshold) then
          \<lparr>rating = ''Excellent'', emoji = [0x1F31F], color = ''#FFD700''\<rparr>
        else if js_ge score (good threshold) then
          \<lparr>rating = ''Good'', emoji = [0x1F44D], color = ''#90EE90''\<rparr>
        else if js_ge score (average threshold) then
          \<lparr>rating = ''Average'', emoji = [0x1F60A], color = ''#87CEEB''\<rparr>
        else
          \<lparr>rating = ''Keep Trying'', emoji = [0x1F4AA], color = ''#FFA07A''\<rparr>)"

section \<open>Double-precision arithmetic\<close>

text \<open>
  The two places that compute with fractions (the random message index and the progress
  percentage) use IEEE 754 binary64 numbers. \<open>fl\<close> rounds a real to the nearest binary64
  value, ties to even, with gradual underflow; overflow (magnitudes from \<open>2^1024\<close> on) does
  not occur in these computations and is not modelled.
\<close>

definition rne :: "real \<Rightarrow> int" where
  "rne y = (let f = \<lfloor>y\<rfloor>; d = y - of_int f
            in if d < 1/2 then f else if d > 1/2 then f + 1
               else if even f then f else f + 1)"

definition fl :: "real \<Rightarrow> real" where
  "fl x = (if x = 0 then 0
           else let e = max \<lfloor>log 2 \<bar>x\<bar>\<rfloor> (- 1022);
                    q = 2 powr (of_int e - 52)
                in of_int (rne (x / q)) * q)"

text \<open>A JavaScript number that need not be finite.\<close>

datatype jsnum = Finite real | NaN | PosInfinity | NegInfinity

text \<open>\<^verbatim>\<open>a / b\<close> on integer-valued numbers; division by zero does not throw.\<close>

definition js_div :: "int \<Rightarrow> int \<Rightarrow> jsnum" where
  "js_div a b =
     (if b = 0 then (if a > 0 then PosInfinity else if a < 0 then NegInfinity else NaN)
      else Finite (fl (of_int a / of_int b)))"

text \<open>\<^verbatim>\<open>x * k\<close> for a positive integer literal \<^verbatim>\<open>k\<close>.\<close>

fun js_times :: "jsnum \<Rightarrow> nat \<Rightarrow> jsnum" where
  "js_times (Finite x) k = Finite (fl (x * of_nat k))"
| "js_times NaN k = NaN"
| "js_times PosInfinity k = (if k = 0 then NaN else PosInfinity)"
| "js_times NegInfinity k = (if k = 0 then NaN else NegInfinity)"

text \<open>\<^verbatim>\<open>Math.min(k, x)\<close> and \<^verbatim>\<open>Math.max(k, x)\<close> for an integer literal \<^verbatim>\<open>k\<close>.\<close>

fun Math_min :: "int \<Rightarrow> jsnum \<Rightarrow> jsnum" where
  "Math_min k (Finite x) = Finite (min (of_int k) x)"
| "Math_min k NaN = NaN"
| "Math_min k PosInfinity = Finite (of_int k)"
| "Math_min k NegInfinity = NegInfinity"

fun Math_max :: "int \<Rightarrow> jsnum \<Rightarrow> jsnum" where
  "Math_max k (Finite x) = Finite (max (of_int k) x)"
| "Math_max k NaN = NaN"
| "Math_max k PosInfinity = PosInfinity"
| "Math_max k NegInfinity = Finite (of_int k)"

section \<open>Motivational message\<close>

datatype level = rookie | beginner | intermediate | advanced | expert

fun messages :: "level \<Rightarrow> ustring list" where
  "messages rookie =
    [[0x1F331] @ asc '' Every expert was once a beginner! Keep playing!'',
     [0x1F3AE] @ asc '' You're just getting started - the fun is ahead!'',
     [0x1F680] @ asc '' Great start! Your memory skills are developing!'']"
| "messages beginner =
    [[0x1F3AF] @ asc '' You're making progress! Keep up the good work!'',
     [0x1F4AA] @ asc '' Your memory is getting stronger with each game!'',
     [0x2B50] @ asc '' Nice improvement! You're on the right track!'']"
| "messages intermediate =
    [[0x1F525] @ asc '' You're getting good at this! Keep the momentum!'',
     [0x1F3AA] @ asc '' Impressive skills! You're becoming a memory pro!'',
     [0x1F31F] @ asc '' Excellent progress! You're in the intermediate league!'']"
| "messages advanced =
    [[0x1F3C6] @ asc '' Outstanding performance! You're almost a master!'',
     [0x1F48E] @ asc '' Your memory skills are truly impressive!'',
     [0x1F680] @ asc '' You're reaching expert levels! Keep pushing!'']"
| "messages expert =
    [[0x1F9E0] @ asc '' Memory Master level achieved! Incredible!'',
     [0x1F451] @ asc '' You're among the elite players! Amazing work!'',
     [0x1F31F] @ asc '' Legendary performance! You're inspiring others!'']"

text \<open>\<^verbatim>\<open>xs[i]\<close>: a read outside the array gives \<^verbatim>\<open>undefined\<close> (\<open>None\<close>), it does not throw.\<close>

definition js_index :: "'a list \<Rightarrow> int \<Rightarrow> 'a option" where
  "js_index xs i = (if 0 \<le> i \<and> i < int (length xs) then Some (xs ! nat i) else None)"

text \<open>
  The index expression \<^verbatim>\<open>Math.floor(Math.random() * levelMessages.length)\<close>, with the
  outcome \<open>r\<close> of \<^verbatim>\<open>Math.random()\<close> as an argument.
\<close>

definition random_index :: "real \<Rightarrow> nat \<Rightarrow> int" where
  "random_index r n = \<lfloor>fl (r * of_nat n)\<rfloor>"

definition level_of :: "'t userStats \<Rightarrow> level" where
  "level_of userStats =
     (if best_score userStats \<ge> 300 then expert
      else if best_score userStats \<ge> 200 then advanced
      else if best_score userStats \<ge> 150 then intermediate
      else if best_score userStats \<ge> 100 then beginner
      else rookie)"

definition getMotivationalMessage :: "'t userStats \<Rightarrow> real \<Rightarrow> ustring option" where
  "getMotivationalMessage userStats r =
     (let level = level_of userStats;
          levelMessages = messages level
      in js_index levelMessages (random_index r (length levelMessages)))"

section \<open>Progress to the next level\<close>

definition levels :: "int list" where
  "levels = [100, 150, 200, 250, 300]"

text \<open>\<^verbatim>\<open>xs.indexOf(v)\<close>: the first position of \<^verbatim>\<open>v\<close>, or \<open>-1\<close>.\<close>

fun indexOf :: "int list \<Rightarrow> int \<Rightarrow> int" where
  "indexOf [] v = -1"
| "indexOf (x # xs) v =
     (if x = v then 0 else (let i = indexOf xs v in if i < 0 then -1 else i + 1))"

text \<open>
  The returned object: \<^verbatim>\<open>{isMaxLevel: true, message}\<close> or
  \<^verbatim>\<open>{isMaxLevel: false, currentLevel, nextLevel, progress, pointsNeeded}\<close>, its fields in
  this order.
\<close>

datatype progressToNextLevel =
    MaxLevel ustring
  | Progress int int jsnum int

text \<open>
  \<^verbatim>\<open>levels.find\<close> gives \<^verbatim>\<open>undefined\<close> when no level is greater; \<^verbatim>\<open>!nextLevel\<close> is also true
  of 0. \<^verbatim>\<open>levels[i] || 0\<close> replaces \<^verbatim>\<open>undefined\<close> (and 0) by 0.
\<close>

definition getProgressToNextLevel :: "int \<Rightarrow> progressToNextLevel" where
  "getProgressToNextLevel bestScore =
     (case find (\<lambda>level. level > bestScore) levels of
        None \<Rightarrow> MaxLevel (asc ''You've reached the highest level! '' @ [0x1F451])
      | Some nextLevel \<Rightarrow>
          if nextLevel = 0 then
            MaxLevel (asc ''You've reached the highest level! '' @ [0x1F451])
          else
            let previousLevel =
                  (case js_index levels (indexOf levels nextLevel - 1) of
                     None \<Rightarrow> 0
                   | Some v \<Rightarrow> if v = 0 then 0 else v);
                progress = js_times (js_div (bestScore - previousLevel)
                                            (nextLevel - previousLevel)) 100
            in Progress previousLevel nextLevel
                 (Math_max 0 (Math_min 100 progress))
                 (nextLevel - bestScore))"

section \<open>The specification's reading of the tables\<close>

text \<open>
  The specification's progress calculator, in its own words: the smallest level strictly
  greater than the score; the max-level marker when there is none; otherwise the preceding
  level (or 0 when the next level is the first one), the clamped percentage and the points
  still needed. The quotient and the product of the percentage are operations of the
  number type (binary64), as in the code; the results 50.0 and 0.0 the specification names
  are exact. It is compared with \<open>getProgressToNextLevel\<close> below.
\<close>

definition computeProgress_spec :: "int \<Rightarrow> progressToNextLevel" where
  "computeProgress_spec score =
     (if \<forall>l \<in> set levels. \<not> score < l then
        MaxLevel (asc ''You've reached the highest level! '' @ [0x1F451])
      else
        let next = Min {l \<in> set levels. score < l};
            previous = (if next = hd levels then 0
                        else levels ! (nat (indexOf levels next) - 1))
        in Progress previous next
             (Math_max 0 (Math_min 100
                (js_times (js_div (score - previous) (next - previous)) 100)))
             (next - score))"

text \<open>
  The specification's tier boundaries: rookie (below 100), beginner (100 to 149),
  intermediate (150 to 199), advanced (200 to 299), expert (300 and above).
\<close>

definition spec_tier :: "int \<Rightarrow> level" where
  "spec_tier score =
     (if score < 100 then rookie
      else if 100 \<le> score \<and> score \<le> 149 then beginner
      else if 150 \<le> score \<and> score \<le> 199 then intermediate
      else if 200 \<le> score \<and> score \<le> 299 then advanced
      else expert)"

text \<open>The order of ratings: Keep Trying, Average, Good, Excellent, from worst to best.\<close>

definition rating_rank :: "string \<Rightarrow> nat" where
  "rating_rank r =
     (if r = ''Excellent'' then 3 else if r = ''Good'' then 2
      else if r = ''Average'' then 1 else 0)"

text \<open>The order of the recognized difficulties: easy, medium, hard, expert.\<close>

definition difficulty_rank :: "string \<Rightarrow> nat option" where
  "difficulty_rank d =
     (if d = ''easy'' then Some 0 else if d = ''medium'' then Some 1
      else if d = ''hard'' then Some 2 else if d = ''expert'' then Some 3
      else None)"

section \<open>Achievement evaluation\<close>

subsection \<open>The output as a concatenation of eleven optional entries\<close>

lemma push_if_nested: "push_if c a (push_if c' a' acc) = push_if c' a' acc @ push_if c a []"
  by (simp add: push_if_def)

lemma push_if_app: "push_if c a (xs @ ys) = xs @ ys @ push_if c a []"
  by (simp add: push_if_def)

lemma map_push_if: "map f (push_if c a []) = push_if c (f a) []"
  by (simp add: push_if_def)

lemma mem_push_if: "x \<in> set (push_if c a []) \<longleftrightarrow> c \<and> x = a"
  by (auto simp add: push_if_def)

lemma achievement_ids_unfold:
  "achievement_ids u s =
     push_if (total_games s \<ge> 10) ''ten_games'' [] @
     push_if (total_games s \<ge> 50) ''fifty_games'' [] @
     push_if (total_games s \<ge> 100) ''hundred_games'' [] @
     push_if (best_score s \<ge> 100) ''score_100'' [] @
     push_if (best_score s \<ge> 200) ''score_200'' [] @
     push_if (best_score s \<ge> 300) ''score_300'' [] @
     push_if (truthy (best_time s) \<and> js_le (best_time s) 60000) ''speed_demon'' [] @
     push_if (truthy (best_time s) \<and> js_le (best_time s) 30000) ''lightning_fast'' [] @
     push_if (js_le (rank s) 10) ''top_ten'' [] @
     push_if (js_le (rank s) 3) ''podium'' [] @
     push_if (js_strict_eq (rank s) 1) ''champion'' []"
  unfolding achievement_ids_def getUserAchievements_def Let_def
  apply (simp only: push_if_nested push_if_app map_append map_push_if append_Nil)
  apply (simp only: ten_games_def fifty_games_def hundred_games_def score_100_def
      score_200_def score_300_def speed_demon_def lightning_fast_def top_ten_def podium_def
      champion_def achievement.simps append_assoc)
  done

subsection \<open>Rank rows\<close>

lemma rank_rows:
  "(''top_ten'' \<in> set (achievement_ids u s) \<longleftrightarrow> js_le (rank s) 10) \<and>
   (''podium'' \<in> set (achievement_ids u s) \<longleftrightarrow> js_le (rank s) 3) \<and>
   (''champion'' \<in> set (achievement_ids u s) \<longleftrightarrow> js_strict_eq (rank s) 1)"
  by (simp add: achievement_ids_unfold mem_push_if)

text \<open>
  The rank rows of the table hold whenever the rank is a number or \<^verbatim>\<open>undefined\<close>.
\<close>

lemma rank_rows_unless_null:
  assumes "rank s \<noteq> Null"
  shows "(''top_ten'' \<in> set (achievement_ids u s) \<longleftrightarrow> (\<exists>n. rank s = Number n \<and> n \<le> 10)) \<and>
   (''podium'' \<in> set (achievement_ids u s) \<longleftrightarrow> (\<exists>n. rank s = Number n \<and> n \<le> 3)) \<and>
   (''champion'' \<in> set (achievement_ids u s) \<longleftrightarrow> (\<exists>n. rank s = Number n \<and> n = 1))"
  using assms by (cases "rank s") (simp_all add: rank_rows)

text \<open>
  C1. The claim: \<open>top_ten\<close> is in the output iff rank is present and at most 10, \<open>podium\<close>
  iff present and at most 3, \<open>champion\<close> iff present and equal to 1; with an absent rank
  none of the three appears. The rank tests have no presence guard (the speed tests two
  statements earlier have one), and \<^verbatim>\<open>null <= 10\<close> is true in JavaScript. So for a user
  with no games and a \<^verbatim>\<open>null\<close> rank the output is exactly \<open>top_ten\<close> and \<open>podium\<close>.
\<close>

theorem null_rank_unlocks_rank_badges:
  "achievement_ids ''alice''
     \<lparr>total_games = 0, best_score = 0, best_time = Null, rank = Null, last_played = Null\<rparr>
   = [''top_ten'', ''podium'']"
  by (simp add: achievement_ids_unfold push_if_def)

subsection \<open>Speed rows\<close>

text \<open>
  C2, as stated, fails: the claim has a present \<open>best_time\<close> of 0 yield both speed
  achievements. The guard \<^verbatim>\<open>userStats.best_time && ...\<close> treats 0 like an absent value, and
  neither is pushed.
\<close>

theorem zero_best_time_no_speed_badges:
  "''speed_demon'' \<notin> set (achievement_ids ''alice''
     \<lparr>total_games = 1, best_score = 0, best_time = Number 0, rank = Undefined,
      last_played = Null\<rparr>) \<and>
   ''lightning_fast'' \<notin> set (achievement_ids ''alice''
     \<lparr>total_games = 1, best_score = 0, best_time = Number 0, rank = Undefined,
      last_played = Null\<rparr>)"
  by (simp add: achievement_ids_unfold mem_push_if)

text \<open>
  C2, amended. For every statistics input, \<open>speed_demon\<close> is in the output iff
  \<open>best_time\<close> is a non-zero number of at most 60000 milliseconds, and \<open>lightning_fast\<close>
  iff it is a non-zero number of at most 30000 milliseconds; a \<open>best_time\<close> that is
  \<^verbatim>\<open>undefined\<close>, \<^verbatim>\<open>null\<close> or 0 yields neither.
\<close>

theorem speed_rows:
  "(''speed_demon'' \<in> set (achievement_ids u s) \<longleftrightarrow>
      (\<exists>n. best_time s = Number n \<and> n \<noteq> 0 \<and> n \<le> 60000)) \<and>
   (''lightning_fast'' \<in> set (achievement_ids u s) \<longleftrightarrow>
      (\<exists>n. best_time s = Number n \<and> n \<noteq> 0 \<and> n \<le> 30000))"
  by (cases "best_time s") (simp_all add: achievement_ids_unfold mem_push_if)

subsection \<open>Cumulative tiers\<close>

text \<open>
  C3. The six games and score tests are cumulative and independent, each row firing on
  its own threshold alone: \<open>ten_games\<close>, \<open>fifty_games\<close> and \<open>hundred_games\<close> are in the
  output iff the number of games is at least 10, 50 and 100, and \<open>score_100\<close>,
  \<open>score_200\<close> and \<open>score_300\<close> iff the best score is at least 100, 200 and 300. So a
  higher tier never suppresses a lower one: with fewer than 10 games \<open>ten_games\<close> is not
  in the output; with at least 100 games all three games ids are in it; with a best score
  of at least 300 all three score ids are in it.
\<close>

theorem thresholds_cumulative:
  "(''ten_games'' \<in> set (achievement_ids u s) \<longleftrightarrow> total_games s \<ge> 10) \<and>
   (''fifty_games'' \<in> set (achievement_ids u s) \<longleftrightarrow> total_games s \<ge> 50) \<and>
   (''hundred_games'' \<in> set (achievement_ids u s) \<longleftrightarrow> total_games s \<ge> 100) \<and>
   (''score_100'' \<in> set (achievement_ids u s) \<longleftrightarrow> best_score s \<ge> 100) \<and>
   (''score_200'' \<in> set (achievement_ids u s) \<longleftrightarrow> best_score s \<ge> 200) \<and>
   (''score_300'' \<in> set (achievement_ids u s) \<longleftrightarrow> best_score s \<ge> 300) \<and>
   (total_games s < 10 \<longrightarrow> ''ten_games'' \<notin> set (achievement_ids u s)) \<and>
   (total_games s \<ge> 100 \<longrightarrow>
      {''ten_games'', ''fifty_games'', ''hundred_games''} \<subseteq> set (achievement_ids u s)) \<and>
   (best_score s \<ge> 300 \<longrightarrow>
      {''score_100'', ''score_200'', ''score_300''} \<subseteq> set (achievement_ids u s))"
  by (simp add: achievement_ids_unfold mem_push_if)

theorem thresholds_cumulative_witness:
  "''ten_games'' \<notin> set (achievement_ids ''alice''
      \<lparr>total_games = 9, best_score = 99, best_time = Undefined, rank = Undefined,
       last_played = Null\<rparr>) \<and>
   {''ten_games'', ''fifty_games'', ''hundred_games''} \<subseteq> set (achievement_ids ''bob''
      \<lparr>total_games = 100, best_score = 350, best_time = Undefined, rank = Undefined,
       last_played = Null\<rparr>) \<and>
   {''score_100'', ''score_200'', ''score_300''} \<subseteq> set (achievement_ids ''bob''
      \<lparr>total_games = 100, best_score = 350, best_time = Undefined, rank = Undefined,
       last_played = Null\<rparr>) \<and>
   {''ten_games'', ''fifty_games'', ''score_100'', ''score_200''}
     \<subseteq> set (achievement_ids ''carol''
      \<lparr>total_games = 60, best_score = 250, best_time = Undefined, rank = Undefined,
       last_played = Null\<rparr>) \<and>
   ''hundred_games'' \<notin> set (achievement_ids ''carol''
      \<lparr>total_games = 60, best_score = 250, best_time = Undefined, rank = Undefined,
       last_played = Null\<rparr>) \<and>
   ''score_300'' \<notin> set (achievement_ids ''carol''
      \<lparr>total_games = 60, best_score = 250, best_time = Undefined, rank = Undefined,
       last_played = Null\<rparr>)"
  using thresholds_cumulative [of "''alice''" "\<lparr>total_games = 9, best_score = 99,
      best_time = Undefined, rank = Undefined, last_played = Null\<rparr>"]
    thresholds_cumulative [of "''bob''" "\<lparr>total_games = 100, best_score = 350,
      best_time = Undefined, rank = Undefined, last_played = Null\<rparr>"]
    thresholds_cumulative [of "''carol''" "\<lparr>total_games = 60, best_score = 250,
      best_time = Undefined, rank = Undefined, last_played = Null\<rparr>"]
  by simp

text \<open>
  At 60 games and a best score of 250 the output is the two lower tiers of each family, in
  table order.
\<close>

lemma mid_tier_output:
  "achievement_ids ''carol''
      \<lparr>total_games = 60, best_score = 250, best_time = Undefined, rank = Undefined,
       last_played = Null\<rparr>
   = [''ten_games'', ''fifty_games'', ''score_100'', ''score_200'']"
  by (simp add: achievement_ids_unfold push_if_def)

subsection \<open>Output order\<close>

lemma subseq_push_if: "subseq xs ys \<Longrightarrow> subseq (push_if c a [] @ xs) (a # ys)"
  by (auto simp add: push_if_def)

lemma achievement_ids_subseq:
  "subseq (achievement_ids u s)
     [''ten_games'', ''fifty_games'', ''hundred_games'', ''score_100'', ''score_200'',
      ''score_300'', ''speed_demon'', ''lightning_fast'', ''top_ten'', ''podium'',
      ''champion'']"
proof -
  have "subseq (push_if (js_strict_eq (rank s) 1) ''champion'' []) [''champion'']"
    by (simp add: push_if_def)
  then show ?thesis
    unfolding achievement_ids_unfold by (intro subseq_push_if)
qed

text \<open>
  C8. The ids of an evaluation form a subsequence of the table order, so each id occurs
  at most once.
\<close>

theorem achievement_ids_subseq_table:
  "subseq (achievement_ids u s)
     [''ten_games'', ''fifty_games'', ''hundred_games'', ''score_100'', ''score_200'',
      ''score_300'', ''speed_demon'', ''lightning_fast'', ''top_ten'', ''podium'',
      ''champion'']
   \<and> distinct (achievement_ids u s)"
proof -
  let ?table = "[''ten_games'', ''fifty_games'', ''hundred_games'', ''score_100'',
      ''score_200'', ''score_300'', ''speed_demon'', ''lightning_fast'', ''top_ten'',
      ''podium'', ''champion'']"
  have sub: "subseq (achievement_ids u s) ?table"
    by (rule achievement_ids_subseq)
  have tbl: "distinct ?table" by simp
  from sub have "achievement_ids u s \<in> set (subseqs ?table)"
    by (simp only: in_set_subseqs)
  then have "distinct (achievement_ids u s)"
    using tbl by (rule subseqs_distinctD)
  with sub show ?thesis by (rule conjI)
qed

lemma length_getUserAchievements: "length (getUserAchievements u s) \<le> 11"
proof -
  have "length (achievement_ids u s) \<le> length [''ten_games'', ''fifty_games'',
      ''hundred_games'', ''score_100'', ''score_200'', ''score_300'', ''speed_demon'',
      ''lightning_fast'', ''top_ten'', ''podium'', ''champion'']"
    using achievement_ids_subseq by (rule list_emb_length)
  then show ?thesis by (simp add: achievement_ids_def)
qed

section \<open>Performance rating: proofs\<close>

lemma rating_easy:
  "rating (getGamePerformance score ''easy'') =
     (if score \<ge> 180 then ''Excellent'' else if score \<ge> 140 then ''Good''
      else if score \<ge> 100 then ''Average'' else ''Keep Trying'')"
  by (simp add: getGamePerformance_def thresholds_def)

lemma rating_medium:
  "rating (getGamePerformance score ''medium'') =
     (if score \<ge> 220 then ''Excellent'' else if score \<ge> 180 then ''Good''
      else if score \<ge> 140 then ''Average'' else ''Keep Trying'')"
  by (simp add: getGamePerformance_def thresholds_def)

lemma rating_hard:
  "rating (getGamePerformance score ''hard'') =
     (if score \<ge> 280 then ''Excellent'' else if score \<ge> 220 then ''Good''
      else if score \<ge> 180 then ''Average'' else ''Keep Trying'')"
  by (simp add: getGamePerformance_def thresholds_def)

lemma rating_expert:
  "rating (getGamePerformance score ''expert'') =
     (if score \<ge> 350 then ''Excellent'' else if score \<ge> 280 then ''Good''
      else if score \<ge> 220 then ''Average'' else ''Keep Trying'')"
  by (simp add: getGamePerformance_def thresholds_def)

text \<open>
  A key that is neither one of the four difficulties nor a member of \<^verbatim>\<open>Object.prototype\<close>
  is rated with the easy triple.
\<close>

lemma thresholds_None_iff:
  "thresholds d = None \<longleftrightarrow>
     d \<notin> {''easy'', ''medium'', ''hard'', ''expert''} \<union> set object_prototype_keys"
  by (simp add: thresholds_def)

lemma fallback_easy:
  "thresholds d = None \<Longrightarrow> getGamePerformance score d = getGamePerformance score ''easy''"
  by (simp add: getGamePerformance_def thresholds_def)

lemma inherited_key_case:
  "d \<in> set object_prototype_keys \<Longrightarrow> rating (getGamePerformance score d) = ''Keep Trying''"
  by (auto simp add: getGamePerformance_def thresholds_def object_prototype_keys_def
      inherited_member_def)

text \<open>The three ratings the specification names.\<close>

lemma rating_examples:
  "rating (getGamePerformance 180 ''easy'') = ''Excellent'' \<and>
   rating (getGamePerformance 179 ''easy'') = ''Good'' \<and>
   rating (getGamePerformance 50 ''unknown-difficulty'') = ''Keep Trying''"
  by (simp add: rating_easy fallback_easy thresholds_None_iff object_prototype_keys_def)

text \<open>
  C4. The claim: any unrecognized difficulty string falls back to the easy triple, so a
  score of 200 is rated Excellent. For the string \<^verbatim>\<open>constructor\<close> the lookup
  \<^verbatim>\<open>thresholds[difficulty]\<close> finds the inherited member, which is truthy, the fallback
  \<^verbatim>\<open>|| thresholds.easy\<close> is not taken, all three comparisons are against \<^verbatim>\<open>undefined\<close>, and
  the rating is Keep Trying.
\<close>

theorem inherited_key_defeats_easy_fallback:
  "rating (getGamePerformance 200 ''constructor'') = ''Keep Trying'' \<and>
   rating (getGamePerformance 200 ''easy'') = ''Excellent''"
  by (simp add: getGamePerformance_def thresholds_def object_prototype_keys_def
      inherited_member_def)

lemma difficulty_rank_SomeD:
  "difficulty_rank d = Some i \<Longrightarrow>
     (d = ''easy'' \<and> i = 0) \<or> (d = ''medium'' \<and> i = 1) \<or> (d = ''hard'' \<and> i = 2) \<or>
     (d = ''expert'' \<and> i = 3)"
  by (simp add: difficulty_rank_def split: if_splits)

lemma rank_easy: "rating_rank (rating (getGamePerformance score ''easy'')) =
   (if score \<ge> 180 then 3 else if score \<ge> 140 then 2 else if score \<ge> 100 then 1 else 0)"
  by (simp add: rating_easy rating_rank_def)

lemma rank_medium: "rating_rank (rating (getGamePerformance score ''medium'')) =
   (if score \<ge> 220 then 3 else if score \<ge> 180 then 2 else if score \<ge> 140 then 1 else 0)"
  by (simp add: rating_medium rating_rank_def)

lemma rank_hard: "rating_rank (rating (getGamePerformance score ''hard'')) =
   (if score \<ge> 280 then 3 else if score \<ge> 220 then 2 else if score \<ge> 180 then 1 else 0)"
  by (simp add: rating_hard rating_rank_def)

lemma rank_expert: "rating_rank (rating (getGamePerformance score ''expert'')) =
   (if score \<ge> 350 then 3 else if score \<ge> 280 then 2 else if score \<ge> 220 then 1 else 0)"
  by (simp add: rating_expert rating_rank_def)

text \<open>
  C10. For a fixed score and two recognized difficulties, the rating at the harder one is
  never strictly better than the rating at the easier one.
\<close>

theorem getGamePerformance_antimono:
  assumes "difficulty_rank d1 = Some i" and "difficulty_rank d2 = Some j" and "j < i"
  shows "rating_rank (rating (getGamePerformance score d1))
       \<le> rating_rank (rating (getGamePerformance score d2))"
  using difficulty_rank_SomeD [OF assms(1)] difficulty_rank_SomeD [OF assms(2)] assms(3)
  by (elim disjE conjE) (simp_all add: rank_easy rank_medium rank_hard rank_expert)

theorem getGamePerformance_antimono_witness:
  "difficulty_rank ''hard'' = Some 2 \<and> difficulty_rank ''easy'' = Some 0 \<and> (0::nat) < 2 \<and>
   rating_rank (rating (getGamePerformance 200 ''hard''))
     \<le> rating_rank (rating (getGamePerformance 200 ''easy'')) \<and>
   rating (getGamePerformance 200 ''hard'') = ''Average'' \<and>
   rating (getGamePerformance 200 ''easy'') = ''Excellent''"
proof -
  have h1: "difficulty_rank ''hard'' = Some 2" by (simp add: difficulty_rank_def)
  have h2: "difficulty_rank ''easy'' = Some 0" by (simp add: difficulty_rank_def)
  have h3: "(0::nat) < 2" by simp
  show ?thesis
    using h1 h2 getGamePerformance_antimono [OF h1 h2 h3, of 200]
    by (simp add: rating_hard rating_easy)
qed

section \<open>Rounding to binary64\<close>

text \<open>
  Facts about \<open>fl\<close> needed below: it keeps non-negative numbers non-negative, it does not
  round across a power of two, and the product of a binary64 number below 1 with 3 rounds to
  a number below 3.
\<close>

lemma rne_cases: "rne y = \<lfloor>y\<rfloor> \<or> rne y = \<lfloor>y\<rfloor> + 1"
  by (simp add: rne_def Let_def)

lemma rne_of_int: "rne (of_int n) = n"
  by (simp add: rne_def)

lemma rne_nonneg: "0 \<le> y \<Longrightarrow> 0 \<le> rne y"
  using rne_cases [of y] by (auto simp add: zero_le_floor)

lemma rne_le_int: "y \<le> of_int n \<Longrightarrow> rne y \<le> n"
proof (cases "y = of_int n")
  case True
  then show ?thesis by (simp add: rne_of_int)
next
  case False
  assume "y \<le> of_int n"
  with False have "y < of_int n" by simp
  then have "\<lfloor>y\<rfloor> < n" by (simp add: floor_less_iff)
  with rne_cases [of y] show ?thesis by auto
qed

lemma rne_below_half:
  assumes "y < of_int n - 1/2"
  shows "rne y \<le> n - 1"
proof -
  have "y < of_int n" using assms by simp
  then have fl: "\<lfloor>y\<rfloor> \<le> n - 1" by (simp add: floor_less_iff)
  show ?thesis
  proof (cases "\<lfloor>y\<rfloor> = n - 1")
    case True
    then have "y - of_int \<lfloor>y\<rfloor> < 1/2" using assms by simp
    then have "rne y = \<lfloor>y\<rfloor>" by (simp add: rne_def Let_def)
    with True show ?thesis by simp
  next
    case False
    with fl have "\<lfloor>y\<rfloor> + 1 \<le> n - 1" by simp
    with rne_cases [of y] show ?thesis by auto
  qed
qed

lemma fl_nonneg:
  assumes "0 \<le> x" shows "0 \<le> fl x"
proof (cases "x = 0")
  case True then show ?thesis by (simp add: fl_def)
next
  case False
  define q :: real where "q = 2 powr (of_int (max \<lfloor>log 2 \<bar>x\<bar>\<rfloor> (- 1022)) - 52)"
  have "q > 0" by (simp add: q_def)
  with assms have "0 \<le> x / q" by simp
  then have "0 \<le> rne (x / q)" by (rule rne_nonneg)
  with \<open>q > 0\<close> have "0 \<le> of_int (rne (x / q)) * q" by simp
  with False show ?thesis by (simp add: fl_def Let_def q_def)
qed

lemma two_powr_nat: "0 \<le> n \<Longrightarrow> 2 powr (of_int n) = (of_int (2 ^ nat n) :: real)"
  by (simp add: powr_real_of_int)

lemma fl_le_power_of_two:
  assumes "0 < x" and "x \<le> 2 powr (of_int k)" and "- 1074 \<le> k"
  shows "fl x \<le> 2 powr (of_int k)"
proof -
  define L where "L = \<lfloor>log 2 x\<rfloor>"
  define e where "e = max L (- 1022)"
  define q :: real where "q = 2 powr (of_int e - 52)"
  define n where "n = k - e + 52"
  have q: "q > 0" by (simp add: q_def)
  have "log 2 x \<le> of_int k" using assms(1,2) by (simp add: log_le_iff)
  then have "L \<le> k" unfolding L_def by (simp add: floor_le_iff)
  with assms(3) have n: "0 \<le> n" by (simp add: e_def n_def)
  have ex: "real_of_int n = of_int k - (of_int e - 52)" by (simp add: n_def)
  have kq: "2 powr (of_int k) = 2 powr (of_int n) * q"
    unfolding q_def ex powr_add [symmetric] by simp
  have "x / q \<le> 2 powr (of_int k) / q" using assms(2) q by (simp add: divide_right_mono)
  also have "\<dots> = 2 powr (of_int n)" using q by (simp add: kq)
  also have "\<dots> = of_int (2 ^ nat n)" using n by (rule two_powr_nat)
  finally have "rne (x / q) \<le> 2 ^ nat n" by (rule rne_le_int)
  then have "of_int (rne (x / q)) \<le> (of_int (2 ^ nat n) :: real)"
    by (simp only: of_int_le_iff)
  then have "of_int (rne (x / q)) * q \<le> of_int (2 ^ nat n) * q"
    using q by (simp only: mult_le_cancel_right_pos)
  also have "\<dots> = 2 powr (of_int k)"
    using n by (simp only: kq two_powr_nat)
  finally have "of_int (rne (x / q)) * q \<le> 2 powr (of_int k)" .
  moreover have "fl x = of_int (rne (x / q)) * q"
    using assms(1) by (simp add: fl_def Let_def q_def e_def L_def)
  ultimately show ?thesis by simp
qed

lemma floor_log2_eq:
  assumes "0 < x" and "2 powr (of_int k) \<le> x" and "x < 2 powr (of_int (k + 1))"
  shows "\<lfloor>log 2 x\<rfloor> = k"
  using assms by (subst floor_log_eq_powr_iff) simp_all

lemma fl_below_3:
  assumes "0 \<le> x" and "x \<le> 3 - 3 / 2 ^ 53"
  shows "fl x < 3"
proof -
  consider "x = 0" | "0 < x" "x \<le> 2" | "2 < x" using assms(1) by fastforce
  then show ?thesis
  proof cases
    case 1
    then show ?thesis by (simp add: fl_def)
  next
    case 2
    have "fl x \<le> 2 powr (of_int 1)"
      using 2 by (intro fl_le_power_of_two) simp_all
    then show ?thesis by simp
  next
    case 3
    have L: "\<lfloor>log 2 x\<rfloor> = 1"
      using 3 assms(2) by (intro floor_log2_eq) simp_all
    have flx: "fl x = of_int (rne (x * 2 ^ 51)) / 2 ^ 51"
      using 3 by (simp add: fl_def L Let_def powr_minus_divide)
    have "x * 2 ^ 51 < of_int (3 * 2 ^ 51) - 1 / 2"
      using assms(2) by simp
    then have "rne (x * 2 ^ 51) \<le> 3 * 2 ^ 51 - 1"
      by (rule rne_below_half)
    then have "(of_int (rne (x * 2 ^ 51)) :: real) \<le> of_int (3 * 2 ^ 51 - 1)"
      by (simp only: of_int_le_iff)
    then have "fl x \<le> of_int (3 * 2 ^ 51 - 1) / 2 ^ 51"
      unfolding flx by (simp add: divide_right_mono)
    also have "\<dots> < 3" by simp
    finally show ?thesis .
  qed
qed

lemma double_below_1:
  assumes "fl r = r" and "0 \<le> r" and "r < 1"
  shows "r \<le> 1 - 1 / 2 ^ 53"
proof (cases "r < 1 / 2")
  case True
  then show ?thesis by simp
next
  case False
  then have half: "1 / 2 \<le> r" by simp
  have L: "\<lfloor>log 2 r\<rfloor> = - 1"
    using half assms(3) by (intro floor_log2_eq) (simp_all add: powr_minus_divide)
  have flr: "fl r = of_int (rne (r * 2 ^ 53)) / 2 ^ 53"
    using half by (simp add: fl_def L Let_def powr_minus_divide)
  define m where "m = rne (r * 2 ^ 53)"
  have r: "r = of_int m / 2 ^ 53" using assms(1) flr by (simp add: m_def)
  with assms(3) have "of_int m < (2 ^ 53 :: real)" by simp
  then have "of_int m < (of_int (2 ^ 53) :: real)" by simp
  then have "m < 2 ^ 53" by (simp only: of_int_less_iff)
  then have "m \<le> 2 ^ 53 - 1" by simp
  then have "(of_int m :: real) \<le> of_int (2 ^ 53 - 1)" by (simp only: of_int_le_iff)
  then have "of_int m / 2 ^ 53 \<le> (of_int (2 ^ 53 - 1) :: real) / 2 ^ 53"
    by (simp add: divide_right_mono)
  with r show ?thesis by simp
qed

lemma random_index_bounds:
  assumes "fl r = r" and "0 \<le> r" and "r < 1"
  shows "0 \<le> random_index r 3 \<and> random_index r 3 < 3"
proof -
  have "r \<le> 1 - 1 / 2 ^ 53" using assms by (rule double_below_1)
  then have up: "r * 3 \<le> 3 - 3 / 2 ^ 53" by simp
  have lo: "0 \<le> r * 3" using assms(2) by simp
  have "0 \<le> fl (r * 3)" using lo by (rule fl_nonneg)
  moreover have "fl (r * 3) < 3" using lo up by (rule fl_below_3)
  ultimately show ?thesis by (simp add: random_index_def floor_less_iff)
qed


lemma floor_log2_values:
  "\<lfloor>log 2 (1 / 2)\<rfloor> = - 1" "\<lfloor>log 2 (3 / 2)\<rfloor> = 0" "\<lfloor>log 2 50\<rfloor> = 5"
  by (intro floor_log2_eq; simp add: powr_minus_divide)+

lemma fl_half: "fl (1 / 2) = 1 / 2"
  by (simp add: fl_def floor_log2_values Let_def rne_def powr_minus_divide)

lemma fl_3_halves: "fl (3 / 2) = 3 / 2"
  by (simp add: fl_def floor_log2_values Let_def rne_def powr_minus_divide)

lemma fl_50: "fl 50 = 50"
  by (simp add: fl_def floor_log2_values Let_def rne_def powr_minus_divide)

section \<open>Motivational message: proofs\<close>

lemma level_of_spec_tier: "level_of s = spec_tier (best_score s)"
  by (simp add: level_of_def spec_tier_def)

lemma length_messages: "length (messages l) = 3"
  by (cases l) simp_all

lemma distinct_messages: "distinct (messages l)"
  by (cases l) (simp_all add: asc_def)

lemma js_index_Some:
  "0 \<le> i \<Longrightarrow> i < int (length xs) \<Longrightarrow> \<exists>x. js_index xs i = Some x \<and> x \<in> set xs"
  by (simp add: js_index_def)

lemma message_in_pool:
  assumes "fl r = r" and "0 \<le> r" and "r < 1"
  shows "\<exists>m. getMotivationalMessage s r = Some m \<and> m \<in> set (messages (level_of s))"
proof -
  have "0 \<le> random_index r 3 \<and> random_index r 3 < 3"
    using assms by (rule random_index_bounds)
  then have "\<exists>m. js_index (messages (level_of s)) (random_index r 3) = Some m \<and>
                 m \<in> set (messages (level_of s))"
    by (intro js_index_Some) (simp_all add: length_messages)
  then show ?thesis
    by (simp add: getMotivationalMessage_def Let_def length_messages)
qed

text \<open>
  C7. For every statistics input and every outcome \<open>r\<close> of the random source (a binary64
  number with \<open>0 \<le> r < 1\<close>), the function returns a string, and that string is one of the
  exactly three distinct strings of the pool of the tier the specification assigns to the
  best score.
\<close>

theorem getMotivationalMessage_in_tier_pool:
  assumes "fl r = r" and "0 \<le> r" and "r < 1"
  shows "\<exists>m. getMotivationalMessage s r = Some m \<and>
             m \<in> set (messages (spec_tier (best_score s))) \<and>
             length (messages (spec_tier (best_score s))) = 3 \<and>
             distinct (messages (spec_tier (best_score s)))"
  using message_in_pool [OF assms, of s]
  by (simp add: length_messages distinct_messages level_of_spec_tier)

theorem getMotivationalMessage_in_tier_pool_witness:
  "fl (1 / 2) = 1 / 2 \<and> (0::real) \<le> 1 / 2 \<and> (1 / 2 :: real) < 1 \<and>
   getMotivationalMessage
      \<lparr>total_games = 12, best_score = 149, best_time = Undefined, rank = Undefined,
       last_played = Null\<rparr> (1 / 2)
     = Some ([0x1F4AA] @ asc '' Your memory is getting stronger with each game!'') \<and>
   [0x1F4AA] @ asc '' Your memory is getting stronger with each game!''
     \<in> set (messages (spec_tier 149))"
proof -
  have h1: "fl (1 / 2) = 1 / 2" by (rule fl_half)
  have h2: "(0::real) \<le> 1 / 2" by simp
  have h3: "(1 / 2 :: real) < 1" by simp
  have idx: "random_index (1 / 2) (Suc (Suc (Suc 0))) = 1"
    by (simp add: random_index_def fl_3_halves)
  have val: "getMotivationalMessage
      \<lparr>total_games = 12, best_score = 149, best_time = Undefined, rank = Undefined,
       last_played = Null\<rparr> (1 / 2)
     = Some ([0x1F4AA] @ asc '' Your memory is getting stronger with each game!'')"
    by (simp add: getMotivationalMessage_def level_of_def idx js_index_def Let_def)
  show ?thesis
    using h1 h2 h3 val
      getMotivationalMessage_in_tier_pool [OF h1 h2 h3, of "\<lparr>total_games = 12,
        best_score = 149, best_time = Undefined, rank = Undefined, last_played = Null\<rparr>"]
    by simp
qed

section \<open>Progress to the next level: proofs\<close>

lemma find_levels:
  "find (\<lambda>level. level > b) levels =
     (if b < 100 then Some 100 else if b < 150 then Some 150 else if b < 200 then Some 200
      else if b < 250 then Some 250 else if b < 300 then Some 300 else None)"
  by (simp add: levels_def)

lemma previous_lookup:
  "js_index levels (indexOf levels 100 - 1) = None"
  "js_index levels (indexOf levels 150 - 1) = Some 100"
  "js_index levels (indexOf levels 200 - 1) = Some 150"
  "js_index levels (indexOf levels 250 - 1) = Some 200"
  "js_index levels (indexOf levels 300 - 1) = Some 250"
  by (simp_all add: levels_def js_index_def)

lemma getProgressToNextLevel_table:
  "getProgressToNextLevel b =
     (if b < 100 then
        Progress 0 100 (Math_max 0 (Math_min 100 (js_times (js_div (b - 0) (100 - 0)) 100)))
          (100 - b)
      else if b < 150 then
        Progress 100 150
          (Math_max 0 (Math_min 100 (js_times (js_div (b - 100) (150 - 100)) 100))) (150 - b)
      else if b < 200 then
        Progress 150 200
          (Math_max 0 (Math_min 100 (js_times (js_div (b - 150) (200 - 150)) 100))) (200 - b)
      else if b < 250 then
        Progress 200 250
          (Math_max 0 (Math_min 100 (js_times (js_div (b - 200) (250 - 200)) 100))) (250 - b)
      else if b < 300 then
        Progress 250 300
          (Math_max 0 (Math_min 100 (js_times (js_div (b - 250) (300 - 250)) 100))) (300 - b)
      else MaxLevel (asc ''You've reached the highest level! '' @ [0x1F451]))"
  by (simp add: getProgressToNextLevel_def find_levels previous_lookup Let_def)

lemma no_next_level_iff: "(\<forall>l \<in> set levels. \<not> b < l) \<longleftrightarrow> 300 \<le> b"
  by (auto simp add: levels_def)

lemma Min_next_level:
  "b < 300 \<Longrightarrow> Min {l \<in> set levels. b < l} =
     (if b < 100 then 100 else if b < 150 then 150 else if b < 200 then 200
      else if b < 250 then 250 else 300)"
  by (intro Min_eqI) (auto simp add: levels_def)

lemma spec_previous:
  "(if n = hd levels then 0 else levels ! (nat (indexOf levels n) - 1)) =
     (if n = 100 then 0 else if n = 150 then 100 else if n = 200 then 150
      else if n = 250 then 200 else if n = 300 then 250
      else levels ! (nat (indexOf levels n) - 1))"
  by (simp add: levels_def)

lemma computeProgress_spec_table:
  "computeProgress_spec b =
     (if b < 100 then
        Progress 0 100 (Math_max 0 (Math_min 100 (js_times (js_div (b - 0) (100 - 0)) 100)))
          (100 - b)
      else if b < 150 then
        Progress 100 150
          (Math_max 0 (Math_min 100 (js_times (js_div (b - 100) (150 - 100)) 100))) (150 - b)
      else if b < 200 then
        Progress 150 200
          (Math_max 0 (Math_min 100 (js_times (js_div (b - 150) (200 - 150)) 100))) (200 - b)
      else if b < 250 then
        Progress 200 250
          (Math_max 0 (Math_min 100 (js_times (js_div (b - 200) (250 - 200)) 100))) (250 - b)
      else if b < 300 then
        Progress 250 300
          (Math_max 0 (Math_min 100 (js_times (js_div (b - 250) (300 - 250)) 100))) (300 - b)
      else MaxLevel (asc ''You've reached the highest level! '' @ [0x1F451]))"
proof (cases "b < 300")
  case True
  then show ?thesis
    unfolding computeProgress_spec_def no_next_level_iff Let_def spec_previous
    by (simp add: Min_next_level)
next
  case False
  then show ?thesis
    unfolding computeProgress_spec_def no_next_level_iff by simp
qed

lemma progress_at_125:
  "getProgressToNextLevel 125 = Progress 100 150 (Finite 50) 25"
  by (simp add: getProgressToNextLevel_table js_div_def fl_half fl_50)

lemma progress_at_0:
  "getProgressToNextLevel 0 = Progress 0 100 (Finite 0) 100"
  by (simp add: getProgressToNextLevel_table js_div_def fl_def)

text \<open>
  Rounding is visible at other scores: at 107 the quotient \<open>7 / 50\<close> and its product with
  100 are both rounded, and the percentage is \<open>14.000000000000002\<close>.
\<close>

lemma fl_7_50: "fl (7 / 50) = 5044031582654956 / 2 ^ 55"
proof -
  have "\<lfloor>log 2 (7 / 50 :: real)\<rfloor> = - 3"
    by (intro floor_log2_eq; simp add: powr_minus_divide)
  then show ?thesis
    by (simp add: fl_def Let_def rne_def powr_minus_divide)
qed

lemma fl_14: "fl (5044031582654956 / 2 ^ 55 * 100) = 14 + 1 / 2 ^ 49"
proof -
  have "\<lfloor>log 2 (5044031582654956 / 2 ^ 55 * 100 :: real)\<rfloor> = 3"
    by (intro floor_log2_eq; simp add: powr_minus_divide)
  then show ?thesis
    by (simp add: fl_def Let_def rne_def powr_minus_divide)
qed

lemma progress_at_107:
  "getProgressToNextLevel 107 = Progress 100 150 (Finite (14 + 1 / 2 ^ 49)) 43"
  using fl_14 by (simp add: getProgressToNextLevel_table js_div_def fl_7_50)

text \<open>
  C5. \<open>getProgressToNextLevel\<close> computes what the specification describes, for every
  integer score (the non-negative ones in particular): the max-level marker exactly when
  the score is at least 300, otherwise the preceding level (or 0), the smallest level
  strictly greater than the score, the clamped percentage and the points needed. At 300 it
  returns the marker, at 125 it returns (100, 150, 50.0, 25) and at 0 it returns
  (0, 100, 0.0, 100).
\<close>

theorem getProgressToNextLevel_spec:
  "getProgressToNextLevel b = computeProgress_spec b \<and>
   (computeProgress_spec b = MaxLevel (asc ''You've reached the highest level! '' @ [0x1F451])
      \<longleftrightarrow> 300 \<le> b) \<and>
   getProgressToNextLevel 300
     = MaxLevel (asc ''You've reached the highest level! '' @ [0x1F451]) \<and>
   getProgressToNextLevel 125 = Progress 100 150 (Finite 50) 25 \<and>
   getProgressToNextLevel 0 = Progress 0 100 (Finite 0) 100"
proof -
  have "getProgressToNextLevel b = computeProgress_spec b"
    by (simp only: getProgressToNextLevel_table computeProgress_spec_table)
  moreover have "computeProgress_spec b =
      MaxLevel (asc ''You've reached the highest level! '' @ [0x1F451]) \<longleftrightarrow> 300 \<le> b"
    by (simp add: computeProgress_spec_table)
  moreover have "getProgressToNextLevel 300 =
      MaxLevel (asc ''You've reached the highest level! '' @ [0x1F451])"
    by (simp add: getProgressToNextLevel_table)
  ultimately show ?thesis
    using progress_at_125 progress_at_0 by simp
qed

theorem getProgressToNextLevel_spec_witness:
  "computeProgress_spec 125 = Progress 100 150 (Finite 50) 25 \<and>
   computeProgress_spec 300
     = MaxLevel (asc ''You've reached the highest level! '' @ [0x1F451])"
  using getProgressToNextLevel_spec [of 125] getProgressToNextLevel_spec [of 300]
  by simp

section \<open>Totality\<close>

lemma progress_finite:
  "case getProgressToNextLevel b of
     MaxLevel m \<Rightarrow> True
   | Progress c n p k \<Rightarrow> n - c \<noteq> 0 \<and> (\<exists>q. p = Finite q \<and> 0 \<le> q \<and> q \<le> 100)"
  by (simp add: getProgressToNextLevel_table js_div_def)

lemma previous_index_range:
  "case find (\<lambda>level. level > b) levels of
     None \<Rightarrow> True
   | Some n \<Rightarrow> - 1 \<le> indexOf levels n - 1 \<and> indexOf levels n - 1 < int (length levels)"
  by (simp add: find_levels) (simp add: levels_def)

lemma rating_total:
  "rating (getGamePerformance score d)
     \<in> {''Excellent'', ''Good'', ''Average'', ''Keep Trying''}"
  by (simp add: getGamePerformance_def Let_def)

text \<open>
  C9. The four functions are total HOL functions, and on every input no out-of-range read
  or division by zero happens on the way to the result. For every binary64 outcome \<open>r\<close>
  of the random source with \<open>0 \<le> r < 1\<close>: the message index lies within the pool and a
  message is returned; the progress result is the marker or carries a finite percentage
  between 0 and 100 whose denominator \<open>nextLevel - currentLevel\<close> is not zero; the index
  of the previous-level read is \<open>-1\<close> (defaulted to 0) or a position of the array; the
  rating is one of the four ratings; and at most eleven achievements are returned.
\<close>

theorem helpers_total:
  assumes "fl r = r" and "0 \<le> r" and "r < 1"
  shows "(\<exists>m. getMotivationalMessage s r = Some m) \<and>
     0 \<le> random_index r (length (messages (level_of s))) \<and>
     random_index r (length (messages (level_of s))) < int (length (messages (level_of s))) \<and>
     (case getProgressToNextLevel b of
        MaxLevel m \<Rightarrow> True
      | Progress c n p k \<Rightarrow> n - c \<noteq> 0 \<and> (\<exists>q. p = Finite q \<and> 0 \<le> q \<and> q \<le> 100)) \<and>
     (case find (\<lambda>level. level > b) levels of
        None \<Rightarrow> True
      | Some n \<Rightarrow> - 1 \<le> indexOf levels n - 1 \<and> indexOf levels n - 1 < int (length levels)) \<and>
     rating (getGamePerformance score d)
       \<in> {''Excellent'', ''Good'', ''Average'', ''Keep Trying''} \<and>
     length (getUserAchievements u s) \<le> 11"
proof -
  have "\<exists>m. getMotivationalMessage s r = Some m"
    using message_in_pool [OF assms, of s] by blast
  moreover have "0 \<le> random_index r (length (messages (level_of s))) \<and>
     random_index r (length (messages (level_of s))) < int (length (messages (level_of s)))"
    using random_index_bounds [OF assms] by (simp add: length_messages)
  ultimately show ?thesis
    using progress_finite [of b] previous_index_range [of b] rating_total [of score d]
      length_getUserAchievements [of u s]
    by (simp only: simp_thms)
qed

theorem helpers_total_witness:
  "fl (1 / 2) = 1 / 2 \<and> (0::real) \<le> 1 / 2 \<and> (1 / 2 :: real) < 1 \<and>
   (\<exists>m. getMotivationalMessage
      \<lparr>total_games = 12, best_score = 125, best_time = Undefined, rank = Undefined,
       last_played = Null\<rparr> (1 / 2) = Some m) \<and>
   random_index (1 / 2) 3 = 1 \<and>
   getProgressToNextLevel 125 = Progress 100 150 (Finite 50) 25 \<and>
   find (\<lambda>level. level > 125) levels = Some 150 \<and>
   indexOf levels 150 - 1 = 0 \<and>
   rating (getGamePerformance 200 ''__proto__'') = ''Keep Trying'' \<and>
   length (getUserAchievements ''alice''
      \<lparr>total_games = 12, best_score = 125, best_time = Undefined, rank = Undefined,
       last_played = Null\<rparr>) \<le> 11"
proof -
  have h1: "fl (1 / 2) = 1 / 2" by (rule fl_half)
  have h2: "(0::real) \<le> 1 / 2" by simp
  have h3: "(1 / 2 :: real) < 1" by simp
  have idx: "random_index (1 / 2) 3 = 1"
    by (simp add: random_index_def fl_3_halves)
  have fnd: "find (\<lambda>level. level > 125) levels = Some 150"
    by (simp add: find_levels)
  have ind: "indexOf levels 150 - 1 = 0"
    by (simp add: levels_def)
  have rat: "rating (getGamePerformance 200 ''__proto__'') = ''Keep Trying''"
    by (simp add: inherited_key_case object_prototype_keys_def)
  show ?thesis
    using h1 h2 h3 idx fnd ind rat progress_at_125
      helpers_total [OF h1 h2 h3, of "\<lparr>total_games = 12, best_score = 125,
        best_time = Undefined, rank = Undefined, last_played = Null\<rparr>" 125 200
        "''__proto__''" "''alice''"]
    by simp
qed

end
